theory Spec2Isabelle
  imports Complex_Main "HOL-Library.Product_Lexorder" "HOL-Library.Sublist" "HOL-Library.Multiset"
begin

section \<open>Pharmacy marketplace backend: data model\<close>

text \<open>
  A shallow embedding of \<^verbatim>\<open>src/main.py\<close> and \<^verbatim>\<open>src/schemas.py\<close>.
  Conventions of the embedding:
  \<^item> Python \<^verbatim>\<open>float\<close> values are modelled as mathematical reals (exact arithmetic, no
    NaN or infinities, no rounding of intermediate results); Python \<^verbatim>\<open>int\<close> as \<open>int\<close>;
    \<^verbatim>\<open>str\<close> as \<open>string\<close>; \<^verbatim>\<open>Optional[T]\<close> as \<open>T option\<close>.
  \<^item> A collection of the document store is a list of (identifier, document) pairs in
    insertion order. Documents have the shape of the schema they were ingested under.
    The store handle is assumed available; connectivity failures are not modelled.
  \<^item> Every \<^verbatim>\<open>raise\<close> is a value \<open>Inl e\<close> of a sum type; a handler that can write to
    the store returns its result paired with the store after the call.
\<close>

datatype error =
    HTTPException nat string      \<comment> \<open>\<^verbatim>\<open>HTTPException(status_code, detail)\<close>\<close>
  | InvalidId                     \<comment> \<open>\<^verbatim>\<open>bson.errors.InvalidId\<close>, raised by \<^verbatim>\<open>ObjectId(s)\<close>; not handled\<close>
  | ValueError                    \<comment> \<open>\<^verbatim>\<open>math\<close> domain error\<close>
  | RequestValidationError        \<comment> \<open>the request does not fit its pydantic model\<close>

type_synonym object_id = string

subsection \<open>schemas.py\<close>

record Pharmacy =
  ph_name :: string
  ph_address :: string
  ph_phone :: "string option"
  ph_latitude :: "real option"
  ph_longitude :: "real option"
  ph_opening_hours :: "string option"

record Medicine =
  med_name :: string
  med_dci :: "string option"
  med_barcode :: "string option"
  med_category :: "string option"
  med_requires_prescription :: bool

record Inventory =
  inv_pharmacy_id :: string
  inv_medicine_id :: string
  inv_medicine_name :: string
  inv_dci :: "string option"
  inv_barcode :: "string option"
  inv_price :: real
  inv_stock :: int

record OrderItem =
  oi_inventory_id :: string
  oi_medicine_name :: string
  oi_price :: real
  oi_quantity :: int
  oi_requires_prescription :: bool

record Order =
  ord_user_name :: string
  ord_user_phone :: string
  ord_pharmacy_id :: string
  ord_items :: "OrderItem list"
  ord_delivery_method :: string
  ord_delivery_address :: "string option"
  ord_prescription_url :: "string option"
  ord_status :: string
  ord_service_fee :: real
  ord_delivery_fee :: real
  ord_total_amount :: real

text \<open>The \<^verbatim>\<open>Literal[...]\<close> types of the schemas, as the lists of strings they admit.\<close>

definition delivery_method_literals :: "string list" where
  "delivery_method_literals = [''delivery'', ''click_collect'']"

definition order_status_literals :: "string list" where
  "order_status_literals =
     [''pending_validation'', ''validated'', ''preparing'', ''out_for_delivery'',
      ''ready_for_pickup'', ''delivered'', ''cancelled'']"

text \<open>Field constraints: \<^verbatim>\<open>quantity: int = Field(..., ge=1)\<close> is the only one on an order item;
  \<^verbatim>\<open>items: List[OrderItem]\<close> carries no length constraint.\<close>

definition valid_OrderItem :: "OrderItem \<Rightarrow> bool" where
  "valid_OrderItem item = (1 \<le> oi_quantity item)"

definition valid_Order :: "Order \<Rightarrow> bool" where
  "valid_Order doc =
     (list_all valid_OrderItem (ord_items doc)
      \<and> ord_delivery_method doc \<in> set delivery_method_literals
      \<and> ord_status doc \<in> set order_status_literals)"

subsection \<open>Request and response models of main.py\<close>

record CreateOrderRequest =
  req_user_name :: string
  req_user_phone :: string
  req_pharmacy_id :: string
  req_items :: "OrderItem list"
  req_delivery_method :: string
  req_delivery_address :: "string option"
  req_prescription_url :: "string option"

definition valid_CreateOrderRequest :: "CreateOrderRequest \<Rightarrow> bool" where
  "valid_CreateOrderRequest payload =
     (list_all valid_OrderItem (req_items payload)
      \<and> req_delivery_method payload \<in> set delivery_method_literals)"

record OrderResponse =
  resp_order_id :: string
  resp_status :: string
  resp_total_amount :: real
  resp_delivery_fee :: real
  resp_service_fee :: real

definition update_status_literals :: "string list" where
  "update_status_literals =
     [''validated'', ''preparing'', ''out_for_delivery'', ''ready_for_pickup'',
      ''delivered'', ''cancelled'']"

record UpdateOrderStatusRequest =
  upd_status :: string

definition valid_UpdateOrderStatusRequest :: "UpdateOrderStatusRequest \<Rightarrow> bool" where
  "valid_UpdateOrderStatusRequest payload = (upd_status payload \<in> set update_status_literals)"

record SearchResponseItem =
  sr_inventory_id :: string
  sr_pharmacy_id :: string
  sr_pharmacy_name :: string
  sr_pharmacy_address :: string
  sr_medicine_name :: string
  sr_dci :: "string option"
  sr_barcode :: "string option"
  sr_price :: real
  sr_stock :: int
  sr_distance_km :: "real option"

section \<open>The document store\<close>

record db =
  db_pharmacy :: "(object_id \<times> Pharmacy) list"
  db_medicine :: "(object_id \<times> Medicine) list"
  db_inventory :: "(object_id \<times> Inventory) list"
  db_order :: "(object_id \<times> Order) list"

text \<open>
  \<^verbatim>\<open>ObjectId(s)\<close> of the bson library accepts a string of 24 hexadecimal digits and raises
  \<^verbatim>\<open>InvalidId\<close> on any other string. Two identifiers are equal when their twelve bytes are,
  so the digits are kept in lower case, which is also what \<^verbatim>\<open>str(oid)\<close> prints.
\<close>

definition is_hex_digit :: "char \<Rightarrow> bool" where
  "is_hex_digit c = (c \<in> set ''0123456789abcdefABCDEF'')"

definition lower_char :: "char \<Rightarrow> char" where
  "lower_char c =
     (let n = (of_char c :: nat) in if 65 \<le> n \<and> n \<le> 90 then char_of (n + 32) else c)"

definition lower :: "string \<Rightarrow> string" where
  "lower s = map lower_char s"

definition ObjectId :: "string \<Rightarrow> error + object_id" where
  "ObjectId s =
     (if length s = 24 \<and> list_all is_hex_digit s then Inr (lower s) else Inl InvalidId)"

definition str_oid :: "object_id \<Rightarrow> string" where
  "str_oid oid = oid"

text \<open>\<^verbatim>\<open>collection.find_one({"_id": oid})\<close>: the first document with that identifier.\<close>

fun find_one :: "(object_id \<times> 'd) list \<Rightarrow> object_id \<Rightarrow> 'd option" where
  "find_one [] oid = None"
| "find_one ((k, d) # rest) oid = (if k = oid then Some d else find_one rest oid)"

text \<open>\<^verbatim>\<open>collection.find(filter)\<close>: the documents that satisfy the filter, in store order.\<close>

definition find_docs ::
  "(object_id \<times> 'd \<Rightarrow> bool) \<Rightarrow> (object_id \<times> 'd) list \<Rightarrow> (object_id \<times> 'd) list" where
  "find_docs flt coll = filter flt coll"

text \<open>\<^verbatim>\<open>collection.update_one({"_id": oid}, {"$set": ...})\<close>: the first matching document
  is updated; the result is \<^verbatim>\<open>matched_count\<close> and the collection afterwards.\<close>

fun update_one :: "object_id \<Rightarrow> ('d \<Rightarrow> 'd) \<Rightarrow> (object_id \<times> 'd) list \<Rightarrow> nat \<times> (object_id \<times> 'd) list" where
  "update_one oid f [] = (0, [])"
| "update_one oid f ((k, d) # rest) =
     (if k = oid then (1, (k, f d) # rest)
      else (case update_one oid f rest of (n, rest') \<Rightarrow> (n, (k, d) # rest')))"

text \<open>
  Modelled from the spec: \<^verbatim>\<open>create_document\<close> of the database access layer
  (\<^verbatim>\<open>database.py\<close>, not among the sources), here for the \<^verbatim>\<open>order\<close> collection, the only
  one \<^verbatim>\<open>create_order\<close> writes to. The spec: it "inserts the entity's fields as a new
  document in the named collection; returns the new document's identifier as a string".
  The identifier the store assigns is the argument \<open>new_id\<close>.
\<close>

definition create_document :: "db \<Rightarrow> object_id \<Rightarrow> Order \<Rightarrow> string \<times> db" where
  "create_document store new_id doc =
     (str_oid new_id, store\<lparr>db_order := db_order store @ [(new_id, doc)]\<rparr>)"

section \<open>Utilities\<close>

text \<open>Truth value of an \<^verbatim>\<open>Optional[str]\<close>: \<^verbatim>\<open>None\<close> and the empty string are false.\<close>

definition truthy :: "string option \<Rightarrow> bool" where
  "truthy s = (case s of None \<Rightarrow> False | Some t \<Rightarrow> t \<noteq> [])"

text \<open>Python's \<^verbatim>\<open>round(x, ndigits)\<close> on exact values: to the nearest multiple of
  \<open>10^(-ndigits)\<close>, a tie going to the even neighbour.\<close>

definition round_half_even :: "real \<Rightarrow> int" where
  "round_half_even x =
     (let f = \<lfloor>x\<rfloor>; d = x - of_int f
      in if d < 1 / 2 then f else if 1 / 2 < d then f + 1 else if even f then f else f + 1)"

definition py_round :: "real \<Rightarrow> nat \<Rightarrow> real" where
  "py_round x ndigits = of_int (round_half_even (x * 10 ^ ndigits)) / 10 ^ ndigits"

definition radians :: "real \<Rightarrow> real" where
  "radians x = x * (pi / 180)"

text \<open>\<^verbatim>\<open>haversine_km\<close>. \<^verbatim>\<open>math.sqrt\<close> raises on a negative argument and \<^verbatim>\<open>math.asin\<close>
  outside \<open>[-1, 1]\<close>; both are branches of the model.\<close>

definition haversine_km :: "real \<Rightarrow> real \<Rightarrow> real \<Rightarrow> real \<Rightarrow> error + real" where
  "haversine_km lat1 lon1 lat2 lon2 =
     (let lon1r = radians lon1; lat1r = radians lat1; lon2r = radians lon2; lat2r = radians lat2;
          dlon = lon2r - lon1r;
          dlat = lat2r - lat1r;
          a = (sin (dlat / 2))\<^sup>2 + cos lat1r * cos lat2r * (sin (dlon / 2))\<^sup>2
      in if a < 0 then Inl ValueError
         else let s = sqrt a
              in if s < - 1 \<or> 1 < s then Inl ValueError
                 else let c = 2 * arcsin s; r = 6371 in Inr (c * r))"

section \<open>Orders\<close>

text \<open>The loop of \<^verbatim>\<open>create_order\<close> over \<^verbatim>\<open>payload.items\<close>, with its two accumulators
  \<^verbatim>\<open>total\<close> (here \<open>tot\<close>) and \<^verbatim>\<open>requires_rx\<close>. The first item that fails a check ends the loop.\<close>

fun check_items :: "db \<Rightarrow> OrderItem list \<Rightarrow> real \<Rightarrow> bool \<Rightarrow> error + (real \<times> bool)" where
  "check_items store [] tot requires_rx = Inr (tot, requires_rx)"
| "check_items store (item # rest) tot requires_rx =
     (case ObjectId (oi_inventory_id item) of
        Inl e \<Rightarrow> Inl e
      | Inr oid \<Rightarrow>
          (case find_one (db_inventory store) oid of
             None \<Rightarrow> Inl (HTTPException 404 (''Inventory not found: '' @ oi_inventory_id item))
           | Some inv_doc \<Rightarrow>
               if inv_stock inv_doc < oi_quantity item
               then Inl (HTTPException 400 (''Insufficient stock for '' @ inv_medicine_name inv_doc))
               else check_items store rest
                      (tot + oi_price item * of_int (oi_quantity item))
                      (if oi_requires_prescription item then True else requires_rx)))"

definition create_order :: "db \<Rightarrow> object_id \<Rightarrow> CreateOrderRequest \<Rightarrow> (error + OrderResponse) \<times> db" where
  "create_order store new_id payload =
     (case check_items store (req_items payload) 0 False of
        Inl e \<Rightarrow> (Inl e, store)
      | Inr (tot, requires_rx) \<Rightarrow>
          let service_fee = py_round (max (0.01 * tot) 100 / 100) 2;
              delivery_fee = (if req_delivery_method payload = ''delivery'' then 2.5 else 0);
              status = ''pending_validation''
          in if requires_rx \<and> \<not> truthy (req_prescription_url payload)
             then (Inl (HTTPException 400 ''Prescription required for selected items''), store)
             else let order_doc = \<lparr>
                        ord_user_name = req_user_name payload,
                        ord_user_phone = req_user_phone payload,
                        ord_pharmacy_id = req_pharmacy_id payload,
                        ord_items = req_items payload,
                        ord_delivery_method = req_delivery_method payload,
                        ord_delivery_address = req_delivery_address payload,
                        ord_prescription_url = req_prescription_url payload,
                        ord_status = status,
                        ord_service_fee = service_fee,
                        ord_delivery_fee = delivery_fee,
                        ord_total_amount = py_round (tot + service_fee + delivery_fee) 2\<rparr>
                  in case create_document store new_id order_doc of
                       (order_id, store') \<Rightarrow>
                         (Inr \<lparr>resp_order_id = order_id,
                                resp_status = status,
                                resp_total_amount = ord_total_amount order_doc,
                                resp_delivery_fee = delivery_fee,
                                resp_service_fee = service_fee\<rparr>, store'))"

text \<open>\<^verbatim>\<open>POST /api/orders\<close>: the body is validated against \<^verbatim>\<open>CreateOrderRequest\<close> before
  the handler runs.\<close>

definition post_api_orders :: "db \<Rightarrow> object_id \<Rightarrow> CreateOrderRequest \<Rightarrow> (error + OrderResponse) \<times> db" where
  "post_api_orders store new_id payload =
     (if valid_CreateOrderRequest payload then create_order store new_id payload
      else (Inl RequestValidationError, store))"

definition update_order_status ::
  "db \<Rightarrow> string \<Rightarrow> UpdateOrderStatusRequest \<Rightarrow> (error + string \<times> string) \<times> db" where
  "update_order_status store order_id payload =
     (case ObjectId order_id of
        Inl e \<Rightarrow> (Inl e, store)
      | Inr oid \<Rightarrow>
          (case update_one oid (\<lambda>doc. doc\<lparr>ord_status := upd_status payload\<rparr>) (db_order store) of
             (matched_count, orders') \<Rightarrow>
               if matched_count = 0 then (Inl (HTTPException 404 ''Order not found''), store)
               else (Inr (order_id, upd_status payload), store\<lparr>db_order := orders'\<rparr>)))"

text \<open>\<^verbatim>\<open>PUT /api/orders/{order_id}\<close>: the body is validated against
  \<^verbatim>\<open>UpdateOrderStatusRequest\<close> before the handler runs.\<close>

definition put_api_orders ::
  "db \<Rightarrow> string \<Rightarrow> UpdateOrderStatusRequest \<Rightarrow> (error + string \<times> string) \<times> db" where
  "put_api_orders store order_id payload =
     (if valid_UpdateOrderStatusRequest payload then update_order_status store order_id payload
      else (Inl RequestValidationError, store))"

section \<open>Catalog search\<close>

text \<open>The filter documents \<^verbatim>\<open>search_inventories\<close> builds for the \<^verbatim>\<open>medicine\<close> collection:
  \<^verbatim>\<open>{}\<close>, \<^verbatim>\<open>{"$or": [{"name": {"$regex": q, "$options": "i"}}, {"dci": {...}}]}\<close> and
  \<^verbatim>\<open>{"barcode": barcode}\<close>.\<close>

datatype med_query = MatchAll | OrRegexI string | BarcodeEq string

text \<open>
  Modelled from the spec: the store's \<^verbatim>\<open>$regex\<close> operator with \<^verbatim>\<open>$options: "i"\<close> (the
  document store is an external dependency). The spec: "case-insensitive substring match
  of q against medicine name OR dci". The pattern is read literally; the regular
  expression metacharacters of the store are not modelled. Case is folded on ASCII letters.
\<close>

definition regex_i :: "string \<Rightarrow> string \<Rightarrow> bool" where
  "regex_i q s = sublist (lower q) (lower s)"

fun matches_medicine :: "med_query \<Rightarrow> object_id \<times> Medicine \<Rightarrow> bool" where
  "matches_medicine MatchAll kd = True"
| "matches_medicine (OrRegexI q) kd =
     (regex_i q (med_name (snd kd))
      \<or> (case med_dci (snd kd) of None \<Rightarrow> False | Some d \<Rightarrow> regex_i q d))"
| "matches_medicine (BarcodeEq b) kd = (med_barcode (snd kd) = Some b)"

definition med_filter :: "string option \<Rightarrow> string option \<Rightarrow> med_query" where
  "med_filter q barcode =
     (let flt = MatchAll;
          flt = (case q of None \<Rightarrow> flt | Some t \<Rightarrow> if t \<noteq> [] then OrRegexI t else flt);
          flt = (case barcode of None \<Rightarrow> flt | Some b \<Rightarrow> if b \<noteq> [] then BarcodeEq b else flt)
      in flt)"

fun ObjectId_list :: "string list \<Rightarrow> error + object_id list" where
  "ObjectId_list [] = Inr []"
| "ObjectId_list (s # rest) =
     (case ObjectId s of
        Inl e \<Rightarrow> Inl e
      | Inr oid \<Rightarrow> (case ObjectId_list rest of Inl e \<Rightarrow> Inl e | Inr oids \<Rightarrow> Inr (oid # oids)))"

text \<open>The distance of one result row. \<^verbatim>\<open>ph\<close> is the joined pharmacy document, \<open>None\<close> for
  the empty dictionary; any exception of the computation leaves the distance absent.\<close>

definition row_distance :: "real option \<Rightarrow> real option \<Rightarrow> Pharmacy option \<Rightarrow> real option" where
  "row_distance latitude longitude ph =
     (case latitude of None \<Rightarrow> None | Some lat \<Rightarrow>
      case longitude of None \<Rightarrow> None | Some lon \<Rightarrow>
      case ph of None \<Rightarrow> None | Some p \<Rightarrow>
      case ph_latitude p of None \<Rightarrow> None | Some plat \<Rightarrow>
      case ph_longitude p of None \<Rightarrow> None | Some plon \<Rightarrow>
      case haversine_km lat lon plat plon of Inl e \<Rightarrow> None | Inr d \<Rightarrow> Some (py_round d 2))"

definition search_row ::
  "(string \<rightharpoonup> Pharmacy) \<Rightarrow> real option \<Rightarrow> real option \<Rightarrow> object_id \<times> Inventory \<Rightarrow> SearchResponseItem" where
  "search_row pharmacies_map latitude longitude kd =
     (let inv_doc = snd kd;
          ph = pharmacies_map (inv_pharmacy_id inv_doc)
      in \<lparr>sr_inventory_id = str_oid (fst kd),
          sr_pharmacy_id = inv_pharmacy_id inv_doc,
          sr_pharmacy_name = (case ph of None \<Rightarrow> ''Unknown'' | Some p \<Rightarrow> ph_name p),
          sr_pharmacy_address = (case ph of None \<Rightarrow> [] | Some p \<Rightarrow> ph_address p),
          sr_medicine_name = inv_medicine_name inv_doc,
          sr_dci = inv_dci inv_doc,
          sr_barcode = inv_barcode inv_doc,
          sr_price = inv_price inv_doc,
          sr_stock = inv_stock inv_doc,
          sr_distance_km = row_distance latitude longitude ph\<rparr>)"

text \<open>The key of \<^verbatim>\<open>resp.sort(key=lambda x: (x.distance_km if ... else 1e9, x.price))\<close>;
  pairs are compared lexicographically.\<close>

definition search_sort_key :: "SearchResponseItem \<Rightarrow> real \<times> real" where
  "search_sort_key x = ((case sr_distance_km x of None \<Rightarrow> 1000000000 | Some d \<Rightarrow> d), sr_price x)"

definition provide_detail :: string where
  "provide_detail =
     ''Provide '' @ [CHR 0x27] @ ''q'' @ [CHR 0x27] @ '' or '' @ [CHR 0x27] @ ''barcode'' @ [CHR 0x27]"

text \<open>\<^verbatim>\<open>search_inventories\<close>, in two parts: the resolution of the medicines (lines 95 to
  108 of main.py), and what follows once \<^verbatim>\<open>meds\<close> is known (lines 109 to 145).\<close>

definition search_rows ::
  "db \<Rightarrow> (object_id \<times> Medicine) list \<Rightarrow> real option \<Rightarrow> real option
     \<Rightarrow> error + SearchResponseItem list" where
  "search_rows store meds latitude longitude =
     (if meds = [] then Inr []
      else
        let med_ids = map (\<lambda>kd. str_oid (fst kd)) meds;
            inventories =
              find_docs (\<lambda>kd. inv_medicine_id (snd kd) \<in> set med_ids \<and> 0 < inv_stock (snd kd))
                (db_inventory store)
        in if inventories = [] then Inr []
           else
             let pharmacy_ids = remdups (map (\<lambda>kd. inv_pharmacy_id (snd kd)) inventories)
             in case ObjectId_list pharmacy_ids of
                  Inl e \<Rightarrow> Inl e
                | Inr oids \<Rightarrow>
                    let found = find_docs (\<lambda>kd. fst kd \<in> set oids) (db_pharmacy store);
                        pharmacies_map = map_of (rev (map (\<lambda>kd. (str_oid (fst kd), snd kd)) found));
                        resp = map (search_row pharmacies_map latitude longitude) inventories
                    in Inr (sort_key search_sort_key resp))"

definition search_inventories ::
  "db \<Rightarrow> string option \<Rightarrow> string option \<Rightarrow> real option \<Rightarrow> real option
     \<Rightarrow> error + SearchResponseItem list" where
  "search_inventories store q barcode latitude longitude =
     (if \<not> truthy q \<and> \<not> truthy barcode then Inl (HTTPException 400 provide_detail)
      else
        let meds = find_docs (matches_medicine (med_filter q barcode)) (db_medicine store)
        in search_rows store meds latitude longitude)"

section \<open>Notions used to state the properties\<close>

text \<open>The sum over the items of price times quantity.\<close>

definition items_total :: "OrderItem list \<Rightarrow> real" where
  "items_total its = sum_list (map (\<lambda>item. oi_price item * of_int (oi_quantity item)) its)"

text \<open>An item passes the per-item checks of order placement: its identifier is well formed,
  resolves to an inventory document, and the requested quantity does not exceed the stock.\<close>

definition item_available :: "db \<Rightarrow> OrderItem \<Rightarrow> bool" where
  "item_available store item =
     (case ObjectId (oi_inventory_id item) of
        Inl e \<Rightarrow> False
      | Inr oid \<Rightarrow>
          (case find_one (db_inventory store) oid of
             None \<Rightarrow> False
           | Some inv_doc \<Rightarrow> oi_quantity item \<le> inv_stock inv_doc))"

text \<open>Status \<open>b\<close> can be reached from status \<open>a\<close> through the update route: some order
  with status \<open>a\<close> has status \<open>b\<close> after one or more successful \<^verbatim>\<open>PUT\<close> requests.\<close>

inductive put_reachable :: "string \<Rightarrow> string \<Rightarrow> bool" where
  put_step:
    "ObjectId order_id = Inr oid \<Longrightarrow> find_one (db_order store) oid = Some doc \<Longrightarrow>
     put_api_orders store order_id payload = (Inr r, store') \<Longrightarrow>
     find_one (db_order store') oid = Some doc' \<Longrightarrow>
     put_reachable (ord_status doc) (ord_status doc')"
| put_trans:
    "put_reachable a b \<Longrightarrow> put_reachable b c \<Longrightarrow> put_reachable a c"

text \<open>The quantity \<^verbatim>\<open>a\<close> of \<^verbatim>\<open>haversine_km\<close>, as a function of the four arguments.\<close>

definition hav_a :: "real \<Rightarrow> real \<Rightarrow> real \<Rightarrow> real \<Rightarrow> real" where
  "hav_a lat1 lon1 lat2 lon2 =
     (sin ((radians lat2 - radians lat1) / 2))\<^sup>2
     + cos (radians lat1) * cos (radians lat2) * (sin ((radians lon2 - radians lon1) / 2))\<^sup>2"

section \<open>A small store and some requests\<close>

text \<open>One pharmacy at latitude 0, longitude 0; two medicines, of which amoxicilline needs a
  prescription; three inventory rows, the second of a pharmacy that is not in the store;
  one order, already validated. The first inventory row is priced 450, so that a request
  which states 500 for it states a price of its own.\<close>

definition ex_pharmacy_id :: string where "ex_pharmacy_id = ''64b7f0c2a1d3e4f5a6b7c801''"
definition ex_absent_pharmacy_id :: string where "ex_absent_pharmacy_id = ''64b7f0c2a1d3e4f5a6b7c809''"
definition ex_paracetamol_id :: string where "ex_paracetamol_id = ''64b7f0c2a1d3e4f5a6b7c811''"
definition ex_amoxicilline_id :: string where "ex_amoxicilline_id = ''64b7f0c2a1d3e4f5a6b7c812''"
definition ex_inventory1_id :: string where "ex_inventory1_id = ''64b7f0c2a1d3e4f5a6b7c821''"
definition ex_inventory2_id :: string where "ex_inventory2_id = ''64b7f0c2a1d3e4f5a6b7c822''"
definition ex_inventory3_id :: string where "ex_inventory3_id = ''64b7f0c2a1d3e4f5a6b7c823''"
definition ex_absent_inventory_id :: string where "ex_absent_inventory_id = ''64b7f0c2a1d3e4f5a6b7c82f''"
definition ex_order_id :: string where "ex_order_id = ''64b7f0c2a1d3e4f5a6b7c831''"
definition ex_new_id :: string where "ex_new_id = ''64b7f0c2a1d3e4f5a6b7c8a1''"

definition ex_item :: "string \<Rightarrow> string \<Rightarrow> real \<Rightarrow> int \<Rightarrow> bool \<Rightarrow> OrderItem" where
  "ex_item iid nm pr qty rx =
     \<lparr>oi_inventory_id = iid, oi_medicine_name = nm, oi_price = pr, oi_quantity = qty,
      oi_requires_prescription = rx\<rparr>"

definition ex_request :: "OrderItem list \<Rightarrow> string \<Rightarrow> string option \<Rightarrow> CreateOrderRequest" where
  "ex_request its method url =
     \<lparr>req_user_name = ''Awa'', req_user_phone = ''70000000'', req_pharmacy_id = ex_pharmacy_id,
      req_items = its, req_delivery_method = method, req_delivery_address = None,
      req_prescription_url = url\<rparr>"

definition ex_order :: "string \<Rightarrow> Order" where
  "ex_order st =
     \<lparr>ord_user_name = ''Awa'', ord_user_phone = ''70000000'', ord_pharmacy_id = ex_pharmacy_id,
      ord_items = [ex_item ex_inventory1_id ''Paracetamol'' 500 2 False],
      ord_delivery_method = ''click_collect'', ord_delivery_address = None,
      ord_prescription_url = None, ord_status = st, ord_service_fee = 1, ord_delivery_fee = 0,
      ord_total_amount = 1001\<rparr>"

definition ex_store :: db where
  "ex_store =
     \<lparr>db_pharmacy =
        [(ex_pharmacy_id,
          \<lparr>ph_name = ''Pharmacie du Centre'', ph_address = ''Ouagadougou'', ph_phone = None,
           ph_latitude = Some 0, ph_longitude = Some 0, ph_opening_hours = None\<rparr>)],
      db_medicine =
        [(ex_paracetamol_id,
          \<lparr>med_name = ''Paracetamol'', med_dci = Some ''paracetamol'', med_barcode = Some ''123'',
           med_category = None, med_requires_prescription = False\<rparr>),
         (ex_amoxicilline_id,
          \<lparr>med_name = ''Clamoxyl'', med_dci = Some ''amoxicilline'', med_barcode = Some ''456'',
           med_category = None, med_requires_prescription = True\<rparr>)],
      db_inventory =
        [(ex_inventory1_id,
          \<lparr>inv_pharmacy_id = ex_pharmacy_id, inv_medicine_id = ex_paracetamol_id,
           inv_medicine_name = ''Paracetamol'', inv_dci = Some ''paracetamol'',
           inv_barcode = Some ''123'', inv_price = 450, inv_stock = 10\<rparr>),
         (ex_inventory2_id,
          \<lparr>inv_pharmacy_id = ex_absent_pharmacy_id, inv_medicine_id = ex_paracetamol_id,
           inv_medicine_name = ''Paracetamol'', inv_dci = Some ''paracetamol'',
           inv_barcode = Some ''123'', inv_price = 300, inv_stock = 5\<rparr>),
         (ex_inventory3_id,
          \<lparr>inv_pharmacy_id = ex_pharmacy_id, inv_medicine_id = ex_amoxicilline_id,
           inv_medicine_name = ''Clamoxyl'', inv_dci = Some ''amoxicilline'',
           inv_barcode = Some ''456'', inv_price = 1000, inv_stock = 1\<rparr>)],
      db_order = [(ex_order_id, ex_order ''validated'')]\<rparr>"




section \<open>Lemmas on the building blocks\<close>

subsection \<open>The loop over the items\<close>

lemma check_items_total:
  "check_items store its tot rx = Inr (t, r) \<Longrightarrow>
     t = tot + items_total its \<and> r = (rx \<or> list_ex oi_requires_prescription its)"
proof (induction its arbitrary: tot rx)
  case Nil
  then show ?case by (simp add: items_total_def)
next
  case (Cons item rest)
  from Cons.prems show ?case
    by (auto simp: items_total_def split: sum.splits option.splits if_splits dest!: Cons.IH)
qed

lemma check_items_available:
  "(\<exists>t r. check_items store its tot rx = Inr (t, r)) = list_all (item_available store) its"
proof (induction its arbitrary: tot rx)
  case Nil
  show ?case by simp
next
  case (Cons item rest)
  have "(\<exists>t r. check_items store (item # rest) tot rx = Inr (t, r)) =
        (item_available store item \<and>
         (\<exists>t r. check_items store rest (tot + oi_price item * of_int (oi_quantity item))
                  (if oi_requires_prescription item then True else rx) = Inr (t, r)))"
    by (auto simp: item_available_def split: sum.splits option.splits)
  then show ?case using Cons.IH by simp
qed

subsection \<open>Rounding\<close>

lemma round_half_even_le: "x \<le> of_int k \<Longrightarrow> round_half_even x \<le> k"
  unfolding round_half_even_def Let_def
  by (auto simp: floor_le_iff le_floor_iff)

lemma round_half_even_ge: "of_int k \<le> x \<Longrightarrow> k \<le> round_half_even x"
proof -
  assume "of_int k \<le> x"
  then have "k \<le> \<lfloor>x\<rfloor>" by (simp add: le_floor_iff)
  then show ?thesis unfolding round_half_even_def Let_def by auto
qed

lemma py_round_ge: "of_int k \<le> x \<Longrightarrow> of_int k \<le> py_round x n"
proof -
  assume h: "of_int k \<le> x"
  have "of_int (k * 10 ^ n) \<le> x * 10 ^ n" using h by (simp add: mult_right_mono)
  then have "k * 10 ^ n \<le> round_half_even (x * 10 ^ n)" by (rule round_half_even_ge)
  then have "(of_int (k * 10 ^ n) :: real) \<le> of_int (round_half_even (x * 10 ^ n))"
    by (simp only: of_int_le_iff)
  then show ?thesis by (simp add: py_round_def pos_le_divide_eq)
qed

lemma py_round_le: "x \<le> of_int k \<Longrightarrow> py_round x n \<le> of_int k"
proof -
  assume h: "x \<le> of_int k"
  have "x * 10 ^ n \<le> of_int (k * 10 ^ n)" using h by (simp add: mult_right_mono)
  then have "round_half_even (x * 10 ^ n) \<le> k * 10 ^ n" by (rule round_half_even_le)
  then have "(of_int (round_half_even (x * 10 ^ n)) :: real) \<le> of_int (k * 10 ^ n)"
    by (simp only: of_int_le_iff)
  then show ?thesis by (simp add: py_round_def pos_divide_le_eq)
qed

lemma py_round_of_int: "py_round (of_int k) n = of_int k"
  using py_round_le[of "of_int k" k n] py_round_ge[of k "of_int k" n] by simp

subsection \<open>A successful placement\<close>

lemma create_order_success:
  assumes "create_order store new_id payload = (Inr r, store')"
  shows "\<exists>tot rx doc. check_items store (req_items payload) 0 False = Inr (tot, rx)
     \<and> (rx \<longrightarrow> truthy (req_prescription_url payload))
     \<and> store' = store\<lparr>db_order := db_order store @ [(new_id, doc)]\<rparr>
     \<and> ord_items doc = req_items payload
     \<and> ord_status doc = ''pending_validation''
     \<and> ord_delivery_method doc = req_delivery_method payload
     \<and> ord_service_fee doc = py_round (max (0.01 * tot) 100 / 100) 2
     \<and> ord_delivery_fee doc = (if req_delivery_method payload = ''delivery'' then 2.5 else 0)
     \<and> ord_total_amount doc = py_round (tot + ord_service_fee doc + ord_delivery_fee doc) 2
     \<and> r = \<lparr>resp_order_id = str_oid new_id, resp_status = ''pending_validation'',
            resp_total_amount = ord_total_amount doc, resp_delivery_fee = ord_delivery_fee doc,
            resp_service_fee = ord_service_fee doc\<rparr>"
  using assms unfolding create_order_def create_document_def Let_def
  by (auto split: sum.splits prod.splits if_splits)

section \<open>Properties of order placement\<close>





lemma create_order_error_store:
  "fst (create_order store new_id payload) = Inl e \<Longrightarrow> snd (create_order store new_id payload) = store"
  unfolding create_order_def create_document_def Let_def
  by (auto split: sum.splits prod.splits if_splits)

lemma create_order_changed_available:
  "snd (create_order store new_id payload) \<noteq> store \<Longrightarrow> list_all (item_available store) (req_items payload)"
proof -
  assume h: "snd (create_order store new_id payload) \<noteq> store"
  have "\<exists>t r. check_items store (req_items payload) 0 False = Inr (t, r)"
    using h unfolding create_order_def
    by (cases "check_items store (req_items payload) 0 False") auto
  then show ?thesis by (simp only: check_items_available)
qed

text \<open>
  Claim C6. Order placement is atomic with respect to errors: whenever
  \<^verbatim>\<open>POST /api/orders\<close> fails (with NotFound, InvalidInput or any other error), the store
  after the call is the store before it, so no document was inserted in any collection;
  and the store changes only for a valid request all of whose items passed the per-item
  checks.
\<close>

theorem order_placement_atomic:
  "(\<forall>e. fst (post_api_orders store new_id payload) = Inl e
        \<longrightarrow> snd (post_api_orders store new_id payload) = store)
   \<and> (snd (post_api_orders store new_id payload) \<noteq> store
        \<longrightarrow> valid_CreateOrderRequest payload \<and> list_all (item_available store) (req_items payload))"
  using create_order_error_store[of store new_id payload] create_order_changed_available[of store new_id payload]
  by (auto simp: post_api_orders_def)

theorem order_placement_atomic_witness:
  "fst (post_api_orders ex_store ex_new_id
     (ex_request [ex_item ex_inventory1_id ''Paracetamol'' 500 2 False,
                  ex_item ex_absent_inventory_id ''Aspirine'' 200 1 False] ''delivery'' None))
     = Inl (HTTPException 404 (''Inventory not found: '' @ ex_absent_inventory_id))
   \<and> snd (post_api_orders ex_store ex_new_id
     (ex_request [ex_item ex_inventory1_id ''Paracetamol'' 500 2 False,
                  ex_item ex_absent_inventory_id ''Aspirine'' 200 1 False] ''delivery'' None))
     = ex_store
   \<and> fst (post_api_orders ex_store ex_new_id
     (ex_request [ex_item ex_inventory1_id ''Paracetamol'' 500 11 False] ''delivery'' None))
     = Inl (HTTPException 400 ''Insufficient stock for Paracetamol'')
   \<and> snd (post_api_orders ex_store ex_new_id
     (ex_request [ex_item ex_inventory1_id ''Paracetamol'' 500 11 False] ''delivery'' None))
     = ex_store
   \<and> fst (post_api_orders ex_store ex_new_id
     (ex_request [ex_item ex_inventory3_id ''Clamoxyl'' 1000 1 True] ''delivery'' None))
     = Inl (HTTPException 400 ''Prescription required for selected items'')
   \<and> snd (post_api_orders ex_store ex_new_id
     (ex_request [ex_item ex_inventory3_id ''Clamoxyl'' 1000 1 True] ''delivery'' None))
     = ex_store
   \<and> snd (post_api_orders ex_store ex_new_id
     (ex_request [ex_item ex_inventory1_id ''Paracetamol'' 500 2 False] ''delivery'' None))
     \<noteq> ex_store
   \<and> valid_CreateOrderRequest
        (ex_request [ex_item ex_inventory1_id ''Paracetamol'' 500 2 False] ''delivery'' None)
   \<and> list_all (item_available ex_store) [ex_item ex_inventory1_id ''Paracetamol'' 500 2 False]"
proof -
  let ?p0 = "ex_request [ex_item ex_inventory1_id ''Paracetamol'' 500 2 False] ''delivery'' None"
  have "length (db_order (snd (post_api_orders ex_store ex_new_id ?p0))) = 2" by code_simp
  moreover have "length (db_order ex_store) = 1" by code_simp
  ultimately have n: "snd (post_api_orders ex_store ex_new_id ?p0) \<noteq> ex_store" by auto
  from order_placement_atomic[of ex_store ex_new_id ?p0] n
  have s0: "valid_CreateOrderRequest ?p0
     \<and> list_all (item_available ex_store) [ex_item ex_inventory1_id ''Paracetamol'' 500 2 False]"
    by (simp add: ex_request_def)
  let ?p1 = "ex_request [ex_item ex_inventory1_id ''Paracetamol'' 500 2 False,
                  ex_item ex_absent_inventory_id ''Aspirine'' 200 1 False] ''delivery'' None"
  let ?p2 = "ex_request [ex_item ex_inventory1_id ''Paracetamol'' 500 11 False] ''delivery'' None"
  let ?p3 = "ex_request [ex_item ex_inventory3_id ''Clamoxyl'' 1000 1 True] ''delivery'' None"
  have f1: "fst (post_api_orders ex_store ex_new_id ?p1)
     = Inl (HTTPException 404 (''Inventory not found: '' @ ex_absent_inventory_id))" by code_simp
  have f2: "fst (post_api_orders ex_store ex_new_id ?p2)
     = Inl (HTTPException 400 ''Insufficient stock for Paracetamol'')" by code_simp
  have f3: "fst (post_api_orders ex_store ex_new_id ?p3)
     = Inl (HTTPException 400 ''Prescription required for selected items'')" by code_simp
  from order_placement_atomic[of ex_store ex_new_id ?p1] f1
  have s1: "snd (post_api_orders ex_store ex_new_id ?p1) = ex_store" by blast
  from order_placement_atomic[of ex_store ex_new_id ?p2] f2
  have s2: "snd (post_api_orders ex_store ex_new_id ?p2) = ex_store" by blast
  from order_placement_atomic[of ex_store ex_new_id ?p3] f3
  have s3: "snd (post_api_orders ex_store ex_new_id ?p3) = ex_store" by blast
  from f1 f2 f3 s1 s2 s3 n s0 show ?thesis by blast
qed

lemma check_items_append:
  "list_all (item_available store) pre \<Longrightarrow>
   check_items store (pre @ rest) tot rx =
   check_items store rest (tot + items_total pre) (rx \<or> list_ex oi_requires_prescription pre)"
proof (induction pre arbitrary: tot rx)
  case Nil
  show ?case by (simp add: items_total_def)
next
  case (Cons item pre)
  from Cons.prems have a: "item_available store item" and b: "list_all (item_available store) pre"
    by simp_all
  from a obtain oid inv_doc where
    o: "ObjectId (oi_inventory_id item) = Inr oid"
    and f: "find_one (db_inventory store) oid = Some inv_doc"
    and q: "oi_quantity item \<le> inv_stock inv_doc"
    by (auto simp: item_available_def split: sum.splits option.splits)
  show ?case
    using o f q Cons.IH[OF b] by (auto simp: items_total_def add.assoc)
qed

text \<open>
  Claim C2, as the code has it. \<^verbatim>\<open>create_order\<close> checks the items in the order of the
  request and fails with the error of the first item that fails a check: NotFound (404)
  when the well-formed \<^verbatim>\<open>inventory_id\<close> of that item resolves to no inventory document,
  InvalidInput (400, "Insufficient stock for <name>") when its quantity exceeds the stock of
  its inventory. When every item passes, it fails with InvalidInput (400, "Prescription
  required for selected items") if at least one item requires a prescription and no
  non-empty \<^verbatim>\<open>prescription_url\<close> was supplied, whatever the other items require;
  otherwise the order is placed. The failure is not determined by the mere presence of an
  unresolved or under-stocked item: an earlier failing item decides, as the counterexample
  shows (the second item resolves to nothing, yet the error is the first item's 400).
\<close>

theorem create_order_outcome:
  "(\<forall>pre item post oid.
      req_items payload = pre @ item # post \<and> list_all (item_available store) pre
      \<and> ObjectId (oi_inventory_id item) = Inr oid \<longrightarrow>
        (find_one (db_inventory store) oid = None \<longrightarrow>
           create_order store new_id payload =
             (Inl (HTTPException 404 (''Inventory not found: '' @ oi_inventory_id item)), store))
      \<and> (\<forall>inv_doc. find_one (db_inventory store) oid = Some inv_doc
             \<and> inv_stock inv_doc < oi_quantity item \<longrightarrow>
           create_order store new_id payload =
             (Inl (HTTPException 400 (''Insufficient stock for '' @ inv_medicine_name inv_doc)), store)))
   \<and> (list_all (item_available store) (req_items payload) \<longrightarrow>
        (if list_ex oi_requires_prescription (req_items payload)
            \<and> \<not> truthy (req_prescription_url payload)
         then create_order store new_id payload =
                (Inl (HTTPException 400 ''Prescription required for selected items''), store)
         else \<exists>r doc. create_order store new_id payload =
                (Inr r, store\<lparr>db_order := db_order store @ [(new_id, doc)]\<rparr>)))"
proof (intro conjI allI impI)
  fix pre item post oid
  assume h: "req_items payload = pre @ item # post \<and> list_all (item_available store) pre
      \<and> ObjectId (oi_inventory_id item) = Inr oid"
  assume n: "find_one (db_inventory store) oid = None"
  from h have "check_items store (req_items payload) 0 False =
      Inl (HTTPException 404 (''Inventory not found: '' @ oi_inventory_id item))"
    using n by (simp add: check_items_append)
  then show "create_order store new_id payload =
      (Inl (HTTPException 404 (''Inventory not found: '' @ oi_inventory_id item)), store)"
    by (simp add: create_order_def)
next
  fix pre item post oid inv_doc
  assume h: "req_items payload = pre @ item # post \<and> list_all (item_available store) pre
      \<and> ObjectId (oi_inventory_id item) = Inr oid"
  assume s: "find_one (db_inventory store) oid = Some inv_doc \<and> inv_stock inv_doc < oi_quantity item"
  from h s have "check_items store (req_items payload) 0 False =
      Inl (HTTPException 400 (''Insufficient stock for '' @ inv_medicine_name inv_doc))"
    by (simp add: check_items_append)
  then show "create_order store new_id payload =
      (Inl (HTTPException 400 (''Insufficient stock for '' @ inv_medicine_name inv_doc)), store)"
    by (simp add: create_order_def)
next
  assume a: "list_all (item_available store) (req_items payload)"
  then obtain t r where c: "check_items store (req_items payload) 0 False = Inr (t, r)"
    using check_items_available[of store "req_items payload" 0 False] by blast
  from check_items_total[OF c] have r: "r = list_ex oi_requires_prescription (req_items payload)"
    by simp
  show "if list_ex oi_requires_prescription (req_items payload)
            \<and> \<not> truthy (req_prescription_url payload)
         then create_order store new_id payload =
                (Inl (HTTPException 400 ''Prescription required for selected items''), store)
         else \<exists>r doc. create_order store new_id payload =
                (Inr r, store\<lparr>db_order := db_order store @ [(new_id, doc)]\<rparr>)"
    using c r by (auto simp: create_order_def create_document_def Let_def)
qed

theorem create_order_outcome_witness:
  "create_order ex_store ex_new_id
     (ex_request [ex_item ex_inventory1_id ''Paracetamol'' 500 2 False,
                  ex_item ex_absent_inventory_id ''Aspirine'' 200 1 False] ''delivery'' None)
     = (Inl (HTTPException 404 (''Inventory not found: '' @ ex_absent_inventory_id)), ex_store)
   \<and> create_order ex_store ex_new_id
     (ex_request [ex_item ex_inventory1_id ''Paracetamol'' 500 2 False,
                  ex_item ex_inventory3_id ''Clamoxyl'' 1000 2 True] ''delivery'' (Some ''https://files.example/rx.pdf''))
     = (Inl (HTTPException 400 ''Insufficient stock for Clamoxyl''), ex_store)
   \<and> create_order ex_store ex_new_id
     (ex_request [ex_item ex_inventory1_id ''Paracetamol'' 500 2 False,
                  ex_item ex_inventory3_id ''Clamoxyl'' 1000 1 True] ''delivery'' None)
     = (Inl (HTTPException 400 ''Prescription required for selected items''), ex_store)
   \<and> (\<exists>r doc. create_order ex_store ex_new_id
     (ex_request [ex_item ex_inventory1_id ''Paracetamol'' 500 2 False,
                  ex_item ex_inventory3_id ''Clamoxyl'' 1000 1 True] ''delivery'' (Some ''https://files.example/rx.pdf''))
     = (Inr r, ex_store\<lparr>db_order := db_order ex_store @ [(ex_new_id, doc)]\<rparr>))"
proof -
  let ?i1 = "ex_item ex_inventory1_id ''Paracetamol'' 500 2 False"
  let ?ia = "ex_item ex_absent_inventory_id ''Aspirine'' 200 1 False"
  let ?i3 = "ex_item ex_inventory3_id ''Clamoxyl'' 1000 2 True"
  let ?i4 = "ex_item ex_inventory3_id ''Clamoxyl'' 1000 1 True"
  let ?url = "Some ''https://files.example/rx.pdf''"
  have av1: "list_all (item_available ex_store) [?i1]" by code_simp
  have oa: "ObjectId (oi_inventory_id ?ia) = Inr ex_absent_inventory_id" by code_simp
  have na: "find_one (db_inventory ex_store) ex_absent_inventory_id = None" by code_simp
  have o3: "ObjectId (oi_inventory_id ?i3) = Inr ex_inventory3_id" by code_simp
  have f3: "find_one (db_inventory ex_store) ex_inventory3_id = Some
          \<lparr>inv_pharmacy_id = ex_pharmacy_id, inv_medicine_id = ex_amoxicilline_id,
           inv_medicine_name = ''Clamoxyl'', inv_dci = Some ''amoxicilline'',
           inv_barcode = Some ''456'', inv_price = 1000, inv_stock = 1\<rparr>" by code_simp
  have av2: "list_all (item_available ex_store) [?i1, ?i4]" by code_simp
  have c1: "create_order ex_store ex_new_id (ex_request [?i1, ?ia] ''delivery'' None)
     = (Inl (HTTPException 404 (''Inventory not found: '' @ ex_absent_inventory_id)), ex_store)"
    using create_order_outcome[of "ex_request [?i1, ?ia] ''delivery'' None" ex_store ex_new_id,
        THEN conjunct1, rule_format, of "[?i1]" ?ia "[]" ex_absent_inventory_id, THEN conjunct1]
      av1 oa na
    by (simp add: ex_request_def ex_item_def)
  have c2: "create_order ex_store ex_new_id (ex_request [?i1, ?i3] ''delivery'' ?url)
     = (Inl (HTTPException 400 ''Insufficient stock for Clamoxyl''), ex_store)"
    using create_order_outcome[of "ex_request [?i1, ?i3] ''delivery'' ?url" ex_store ex_new_id,
        THEN conjunct1, rule_format, of "[?i1]" ?i3 "[]" ex_inventory3_id, THEN conjunct2, rule_format,
        of "\<lparr>inv_pharmacy_id = ex_pharmacy_id, inv_medicine_id = ex_amoxicilline_id,
           inv_medicine_name = ''Clamoxyl'', inv_dci = Some ''amoxicilline'',
           inv_barcode = Some ''456'', inv_price = 1000, inv_stock = 1\<rparr>"]
      av1 o3 f3
    by (simp add: ex_request_def ex_item_def)
  have c3: "create_order ex_store ex_new_id (ex_request [?i1, ?i4] ''delivery'' None)
     = (Inl (HTTPException 400 ''Prescription required for selected items''), ex_store)"
    using create_order_outcome[of "ex_request [?i1, ?i4] ''delivery'' None" ex_store ex_new_id,
        THEN conjunct2, rule_format] av2
    by (simp add: ex_request_def ex_item_def truthy_def)
  have c4: "\<exists>r doc. create_order ex_store ex_new_id (ex_request [?i1, ?i4] ''delivery'' ?url)
     = (Inr r, ex_store\<lparr>db_order := db_order ex_store @ [(ex_new_id, doc)]\<rparr>)"
    using create_order_outcome[of "ex_request [?i1, ?i4] ''delivery'' ?url" ex_store ex_new_id,
        THEN conjunct2, rule_format] av2
    by (simp add: ex_request_def ex_item_def truthy_def)
  from c1 c2 c3 c4 show ?thesis by blast
qed


text \<open>
  Claim C2 as stated fails: in the request below the second item resolves to no inventory
  document, yet the call does not fail with NotFound; the first item, whose quantity
  exceeds the stock, decides.
\<close>

theorem create_order_first_failure_counterexample:
  "ObjectId ex_absent_inventory_id = Inr ex_absent_inventory_id
   \<and> find_one (db_inventory ex_store) ex_absent_inventory_id = None
   \<and> create_order ex_store ex_new_id
        (ex_request [ex_item ex_inventory1_id ''Paracetamol'' 500 11 False,
                     ex_item ex_absent_inventory_id ''Aspirine'' 200 1 False] ''delivery'' None)
      = (Inl (HTTPException 400 ''Insufficient stock for Paracetamol''), ex_store)"
  by code_simp

text \<open>
  Claim C8, as the code has it. Neither the \<^verbatim>\<open>Order\<close> entity nor the request body of order
  placement constrains the length of \<^verbatim>\<open>items\<close> (the field is \<^verbatim>\<open>List[OrderItem]\<close>; only
  the quantity of each item is bounded below by 1). A request with an empty items list and
  one of the two delivery methods is valid, and \<^verbatim>\<open>POST /api/orders\<close> places it: an order
  with no item is persisted, with service fee 1.00 and total amount 1.00 plus the delivery
  fee. The counterexample is such a request on the example store.
\<close>

theorem empty_order_accepted:
  assumes "req_items payload = []"
    and "req_delivery_method payload \<in> set delivery_method_literals"
  shows "valid_CreateOrderRequest payload
     \<and> (\<exists>r doc. post_api_orders store new_id payload =
            (Inr r, store\<lparr>db_order := db_order store @ [(new_id, doc)]\<rparr>)
          \<and> ord_items doc = [] \<and> valid_Order doc
          \<and> ord_service_fee doc = 1
          \<and> ord_total_amount doc = 1 + ord_delivery_fee doc)"
proof -
  have v: "valid_CreateOrderRequest payload"
    using assms by (simp add: valid_CreateOrderRequest_def)
  have r1: "py_round 1 2 = 1" using py_round_of_int[of 1 2] by simp
  have r2: "py_round 2 2 = 2" using py_round_of_int[of 2 2] by simp
  have r3: "py_round (7 / 2) 2 = 7 / 2" by (simp add: py_round_def round_half_even_def)
  show ?thesis
    using assms v r1 r2 r3
    by (auto simp: post_api_orders_def create_order_def create_document_def Let_def
        valid_Order_def delivery_method_literals_def order_status_literals_def)
qed

theorem empty_order_accepted_witness:
  "req_items (ex_request [] ''delivery'' None) = []
   \<and> req_delivery_method (ex_request [] ''delivery'' None) \<in> set delivery_method_literals
   \<and> valid_CreateOrderRequest (ex_request [] ''delivery'' None)
   \<and> (\<exists>r doc. post_api_orders ex_store ex_new_id (ex_request [] ''delivery'' None) =
            (Inr r, ex_store\<lparr>db_order := db_order ex_store @ [(ex_new_id, doc)]\<rparr>)
          \<and> ord_items doc = [] \<and> valid_Order doc
          \<and> ord_service_fee doc = 1
          \<and> ord_total_amount doc = 1 + ord_delivery_fee doc)"
proof -
  have a: "req_items (ex_request [] ''delivery'' None) = []" by (simp add: ex_request_def)
  have b: "req_delivery_method (ex_request [] ''delivery'' None) \<in> set delivery_method_literals"
    by (simp add: ex_request_def delivery_method_literals_def)
  from empty_order_accepted[OF a b, of ex_store ex_new_id] a b show ?thesis by blast
qed


text \<open>
  Claim C8 as stated fails: the request below has no item, is valid, and is persisted.
\<close>

theorem empty_order_counterexample:
  "valid_CreateOrderRequest (ex_request [] ''click_collect'' None)
   \<and> post_api_orders ex_store ex_new_id (ex_request [] ''click_collect'' None)
     = (Inr \<lparr>resp_order_id = ex_new_id, resp_status = ''pending_validation'',
             resp_total_amount = 1, resp_delivery_fee = 0, resp_service_fee = 1\<rparr>,
        ex_store\<lparr>db_order := db_order ex_store @
          [(ex_new_id,
            \<lparr>ord_user_name = ''Awa'', ord_user_phone = ''70000000'', ord_pharmacy_id = ex_pharmacy_id,
             ord_items = [], ord_delivery_method = ''click_collect'', ord_delivery_address = None,
             ord_prescription_url = None, ord_status = ''pending_validation'', ord_service_fee = 1,
             ord_delivery_fee = 0, ord_total_amount = 1\<rparr>)]\<rparr>)
   \<and> valid_Order
        \<lparr>ord_user_name = ''Awa'', ord_user_phone = ''70000000'', ord_pharmacy_id = ex_pharmacy_id,
         ord_items = [], ord_delivery_method = ''click_collect'', ord_delivery_address = None,
         ord_prescription_url = None, ord_status = ''pending_validation'', ord_service_fee = 1,
         ord_delivery_fee = 0, ord_total_amount = 1\<rparr>"
  by code_simp

section \<open>Properties of the order status\<close>

lemma update_one_found:
  "find_one coll oid = Some d \<Longrightarrow>
   \<exists>coll'. update_one oid f coll = (1, coll') \<and> find_one coll' oid = Some (f d)"
proof (induction coll)
  case Nil
  then show ?case by simp
next
  case (Cons kd rest)
  obtain k d0 where kd: "kd = (k, d0)" by (cases kd)
  show ?case
  proof (cases "k = oid")
    case True
    with Cons.prems kd show ?thesis by simp
  next
    case False
    with Cons.prems kd have "find_one rest oid = Some d" by simp
    from Cons.IH[OF this] obtain rest' where
      "update_one oid f rest = (1, rest')" "find_one rest' oid = Some (f d)" by blast
    with False kd show ?thesis by simp
  qed
qed

lemma update_one_status:
  "update_one oid f coll = (n, coll') \<Longrightarrow> n \<noteq> 0 \<Longrightarrow> find_one coll' oid = Some d' \<Longrightarrow>
   \<exists>d. find_one coll oid = Some d \<and> d' = f d"
proof (induction coll arbitrary: n coll')
  case Nil
  then show ?case by simp
next
  case (Cons kd rest)
  obtain k d0 where kd: "kd = (k, d0)" by (cases kd)
  show ?case
  proof (cases "k = oid")
    case True
    with Cons.prems kd show ?thesis by auto
  next
    case False
    obtain m rest' where u: "update_one oid f rest = (m, rest')" by (cases "update_one oid f rest")
    with False kd Cons.prems have "n = m" "coll' = (k, d0) # rest'" by auto
    with False Cons.prems have "m \<noteq> 0" "find_one rest' oid = Some d'" by auto
    from Cons.IH[OF u this] False kd show ?thesis by simp
  qed
qed

lemma put_success:
  assumes "ObjectId order_id = Inr oid" "find_one (db_order store) oid = Some doc"
    and "s \<in> set update_status_literals"
  shows "\<exists>store'. put_api_orders store order_id \<lparr>upd_status = s\<rparr> = (Inr (order_id, s), store')
       \<and> find_one (db_order store') oid = Some (doc\<lparr>ord_status := s\<rparr>)"
proof -
  from update_one_found[OF assms(2), of "\<lambda>doc. doc\<lparr>ord_status := s\<rparr>"] obtain coll' where
    u: "update_one oid (\<lambda>doc. doc\<lparr>ord_status := s\<rparr>) (db_order store) = (1, coll')"
    and f: "find_one coll' oid = Some (doc\<lparr>ord_status := s\<rparr>)" by blast
  show ?thesis
    using assms(1,3) u f
    by (simp add: put_api_orders_def valid_UpdateOrderStatusRequest_def update_order_status_def)
qed

lemma put_result_status:
  assumes "ObjectId order_id = Inr oid"
    and "put_api_orders store order_id payload = (Inr r, store')"
    and "find_one (db_order store') oid = Some doc'"
  shows "ord_status doc' = upd_status payload \<and> upd_status payload \<in> set update_status_literals"
proof -
  from assms(2) have v: "upd_status payload \<in> set update_status_literals"
    by (auto simp: put_api_orders_def valid_UpdateOrderStatusRequest_def split: if_splits)
  obtain n coll' where u: "update_one oid (\<lambda>doc. doc\<lparr>ord_status := upd_status payload\<rparr>) (db_order store) = (n, coll')"
    by (cases "update_one oid (\<lambda>doc. doc\<lparr>ord_status := upd_status payload\<rparr>) (db_order store)")
  from assms(1,2) u v have n: "n \<noteq> 0" and s: "store' = store\<lparr>db_order := coll'\<rparr>"
    by (auto simp: put_api_orders_def valid_UpdateOrderStatusRequest_def update_order_status_def
        split: if_splits)
  from assms(3) s have "find_one coll' oid = Some doc'" by simp
  from update_one_status[OF u n this] v show ?thesis by auto
qed

lemma put_reachable_target: "put_reachable a b \<Longrightarrow> b \<in> set update_status_literals"
proof (induction rule: put_reachable.induct)
  case (put_step order_id oid store doc payload r store' doc')
  from put_result_status[OF put_step(1) put_step(3) put_step(4)] show ?case by simp
next
  case (put_trans a b c)
  then show ?case by simp
qed

lemma put_reachable_any:
  assumes "b \<in> set update_status_literals"
  shows "put_reachable a b"
proof -
  let ?store = "\<lparr>db_pharmacy = [], db_medicine = [], db_inventory = [],
                 db_order = [(ex_order_id, ex_order a)]\<rparr>"
  have o: "ObjectId ex_order_id = Inr ex_order_id" by code_simp
  have f: "find_one (db_order ?store) ex_order_id = Some (ex_order a)" by simp
  from put_success[OF o f assms] obtain store' where
    p: "put_api_orders ?store ex_order_id \<lparr>upd_status = b\<rparr> = (Inr (ex_order_id, b), store')"
    and g: "find_one (db_order store') ex_order_id = Some ((ex_order a)\<lparr>ord_status := b\<rparr>)"
    by blast
  from put_step[OF o f p g] show ?thesis by (simp add: ex_order_def)
qed

text \<open>
  Claim C3, as the code has it. \<^verbatim>\<open>PUT /api/orders/{id}\<close> on an existing order accepts each
  of the six statuses validated, preparing, out_for_delivery, ready_for_pickup, delivered and
  cancelled from any current status, and the order then has that status; so each of these
  six is reachable from every status. The body model of the route does not admit
  pending_validation, so pending_validation is reachable from no status through the
  route (the counterexample: not from validated). Every order persisted by
  \<^verbatim>\<open>POST /api/orders\<close> has status pending_validation.
\<close>

theorem order_status_transitions:
  "(ObjectId order_id = Inr oid \<and> find_one (db_order store) oid = Some doc
      \<and> s \<in> set update_status_literals \<longrightarrow>
      (\<exists>store'. put_api_orders store order_id \<lparr>upd_status = s\<rparr> = (Inr (order_id, s), store')
         \<and> (\<exists>doc'. find_one (db_order store') oid = Some doc' \<and> ord_status doc' = s)))
   \<and> (a \<in> set order_status_literals \<and> b \<in> set update_status_literals \<longrightarrow> put_reachable a b)
   \<and> (put_reachable a b \<longrightarrow> b \<in> set update_status_literals \<and> b \<noteq> ''pending_validation'')
   \<and> (post_api_orders store new_id payload = (Inr r, store'') \<longrightarrow>
        resp_status r = ''pending_validation''
        \<and> (\<exists>new_doc. db_order store'' = db_order store @ [(new_id, new_doc)]
              \<and> ord_status new_doc = ''pending_validation''))"
proof (intro conjI impI)
  assume h: "ObjectId order_id = Inr oid \<and> find_one (db_order store) oid = Some doc
      \<and> s \<in> set update_status_literals"
  then have h1: "ObjectId order_id = Inr oid" and h2: "find_one (db_order store) oid = Some doc"
    and h3: "s \<in> set update_status_literals" by simp_all
  from put_success[OF h1 h2 h3]
  show "\<exists>store'. put_api_orders store order_id \<lparr>upd_status = s\<rparr> = (Inr (order_id, s), store')
         \<and> (\<exists>doc'. find_one (db_order store') oid = Some doc' \<and> ord_status doc' = s)"
    by auto
next
  assume "a \<in> set order_status_literals \<and> b \<in> set update_status_literals"
  then show "put_reachable a b" by (simp add: put_reachable_any)
next
  assume "put_reachable a b"
  then show "b \<in> set update_status_literals" by (rule put_reachable_target)
next
  assume "put_reachable a b"
  from put_reachable_target[OF this] show "b \<noteq> ''pending_validation''"
    by (auto simp: update_status_literals_def)
next
  assume p: "post_api_orders store new_id payload = (Inr r, store'')"
  then have c: "create_order store new_id payload = (Inr r, store'')"
    by (simp add: post_api_orders_def split: if_splits)
  from create_order_success[OF c] show "resp_status r = ''pending_validation''" by auto
  from create_order_success[OF c]
  show "\<exists>new_doc. db_order store'' = db_order store @ [(new_id, new_doc)]
              \<and> ord_status new_doc = ''pending_validation''" by auto
qed

theorem order_status_transitions_witness:
  "(\<exists>store'. put_api_orders ex_store ex_order_id \<lparr>upd_status = ''cancelled''\<rparr>
        = (Inr (ex_order_id, ''cancelled''), store')
      \<and> (\<exists>doc'. find_one (db_order store') ex_order_id = Some doc' \<and> ord_status doc' = ''cancelled''))
   \<and> put_reachable ''delivered'' ''validated''
   \<and> ''cancelled'' \<noteq> ''pending_validation''
   \<and> resp_status \<lparr>resp_order_id = ex_new_id, resp_status = ''pending_validation'',
            resp_total_amount = 1003.5, resp_delivery_fee = 2.5, resp_service_fee = 1\<rparr>
       = ''pending_validation''
   \<and> (\<exists>new_doc. db_order (snd (post_api_orders ex_store ex_new_id
          (ex_request [ex_item ex_inventory1_id ''Paracetamol'' 500 2 False] ''delivery'' None)))
        = db_order ex_store @ [(ex_new_id, new_doc)] \<and> ord_status new_doc = ''pending_validation'')"
proof -
  let ?p = "ex_request [ex_item ex_inventory1_id ''Paracetamol'' 500 2 False] ''delivery'' None"
  let ?r = "\<lparr>resp_order_id = ex_new_id, resp_status = ''pending_validation'',
            resp_total_amount = 1003.5, resp_delivery_fee = 2.5, resp_service_fee = 1\<rparr>"
  have o: "ObjectId ex_order_id = Inr ex_order_id" by code_simp
  have f: "find_one (db_order ex_store) ex_order_id = Some (ex_order ''validated'')" by code_simp
  have m: "''cancelled'' \<in> set update_status_literals" by (simp add: update_status_literals_def)
  have m2: "''delivered'' \<in> set order_status_literals \<and> ''validated'' \<in> set update_status_literals"
    by (simp add: order_status_literals_def update_status_literals_def)
  have g: "fst (post_api_orders ex_store ex_new_id ?p) = Inr ?r" by code_simp
  then have e: "post_api_orders ex_store ex_new_id ?p = (Inr ?r, snd (post_api_orders ex_store ex_new_id ?p))"
    by (metis prod.collapse)
  note t = order_status_transitions[of ex_order_id ex_order_id ex_store "ex_order ''validated''"
      "''cancelled''" "''delivered''" "''validated''" ex_new_id ?p ?r
      "snd (post_api_orders ex_store ex_new_id ?p)"]
  from t o f m m2 e show ?thesis by simp
qed

text \<open>
  Claim C3 as stated fails: pending_validation cannot be reached from validated through
  the update route.
\<close>

theorem pending_validation_unreachable_counterexample:
  "\<not> put_reachable ''validated'' ''pending_validation''"
proof
  assume "put_reachable ''validated'' ''pending_validation''"
  from put_reachable_target[OF this] show False by (simp add: update_status_literals_def)
qed

section \<open>Properties of the catalog search\<close>

subsection \<open>The example store under search\<close>










subsection \<open>The query parameters\<close>

text \<open>
  Claim C10. \<^verbatim>\<open>GET /api/search\<close> treats an empty query string as absent: with \<^verbatim>\<open>q\<close> the
  empty string and no barcode, with both the empty string, (and with an empty barcode and
  no \<^verbatim>\<open>q\<close>, or neither,) it fails with InvalidInput (400, "Provide 'q' or 'barcode'") and
  searches nothing, whatever the store and the coordinates.
\<close>

theorem search_empty_query_rejected:
  "search_inventories store (Some []) None latitude longitude
      = Inl (HTTPException 400 provide_detail)
   \<and> search_inventories store (Some []) (Some []) latitude longitude
      = Inl (HTTPException 400 provide_detail)
   \<and> search_inventories store None (Some []) latitude longitude
      = Inl (HTTPException 400 provide_detail)
   \<and> search_inventories store None None latitude longitude
      = Inl (HTTPException 400 provide_detail)"
  by (simp add: search_inventories_def truthy_def)

theorem search_empty_query_rejected_witness:
  "search_inventories ex_store (Some []) None (Some 12) (Some (- 1))
      = Inl (HTTPException 400 provide_detail)
   \<and> search_inventories ex_store (Some []) (Some []) None None
      = Inl (HTTPException 400 provide_detail)"
  using search_empty_query_rejected[of ex_store "Some 12" "Some (- 1)"]
    search_empty_query_rejected[of ex_store None None]
  by simp





subsection \<open>The order of the result\<close>

lemma haversine_range:
  assumes "haversine_km lat1 lon1 lat2 lon2 = Inr d"
  shows "0 \<le> d \<and> d \<le> pi * 6371"
proof -
  define a where "a = (sin ((radians lat2 - radians lat1) / 2))\<^sup>2
     + cos (radians lat1) * cos (radians lat2) * (sin ((radians lon2 - radians lon1) / 2))\<^sup>2"
  from assms have a0: "\<not> a < 0" and s1: "\<not> (sqrt a < - 1 \<or> 1 < sqrt a)"
    and d: "d = 2 * arcsin (sqrt a) * 6371"
    by (auto simp: haversine_km_def Let_def a_def split: if_splits)
  from a0 have s0: "0 \<le> sqrt a" by simp
  from s1 have s2: "sqrt a \<le> 1" by simp
  from s0 s2 have "arcsin 0 \<le> arcsin (sqrt a)" by (intro arcsin_le_arcsin) simp_all
  then have l: "0 \<le> arcsin (sqrt a)" by simp
  from s0 have s3: "- 1 \<le> sqrt a" by linarith
  from s3 s2 have u: "arcsin (sqrt a) \<le> pi / 2" by (rule arcsin_ubound)
  from l u d show ?thesis by simp
qed









section \<open>Properties of the distance utility\<close>

subsection \<open>Bounds on pi\<close>

lemma arctan_partial_sums:
  fixes x :: real
  assumes "0 \<le> x" "x \<le> 1"
  shows "(\<Sum>k<2 * n. (- 1) ^ k * (1 / real (k * 2 + 1) * x ^ (k * 2 + 1))) \<le> arctan x"
    and "arctan x \<le> (\<Sum>k<2 * n + 1. (- 1) ^ k * (1 / real (k * 2 + 1) * x ^ (k * 2 + 1)))"
proof -
  let ?a = "\<lambda>k. 1 / real (k * 2 + 1) * x ^ (k * 2 + 1)"
  from assms have ax: "\<bar>x\<bar> \<le> 1" by simp
  have z: "?a \<longlonglongrightarrow> 0" by (rule zeroseq_arctan_series[OF ax])
  have p: "0 \<le> ?a k" for k using assms by simp
  have m: "?a (Suc k) \<le> ?a k" for k
  proof (rule mult_mono)
    show "1 / real (Suc k * 2 + 1) \<le> 1 / real (k * 2 + 1)" by (simp add: field_simps)
    show "x ^ (Suc k * 2 + 1) \<le> x ^ (k * 2 + 1)" using assms by (intro power_decreasing) simp_all
    show "0 \<le> 1 / real (k * 2 + 1)" by simp
    show "0 \<le> x ^ (Suc k * 2 + 1)" using assms by simp
  qed
  have s: "arctan x = (\<Sum>k. (- 1) ^ k * ?a k)" by (rule arctan_series[OF ax])
  from summable_Leibniz'(2)[of ?a, OF z p m, of n] s
  show "(\<Sum>k<2 * n. (- 1) ^ k * ?a k) \<le> arctan x" by simp
  from summable_Leibniz'(4)[of ?a, OF z p m, of n] s
  show "arctan x \<le> (\<Sum>k<2 * n + 1. (- 1) ^ k * ?a k)" by simp
qed

lemma pi_bounds: "3.14159 < pi" "pi < 3.1416"
proof -
  have m: "pi = 16 * arctan (1 / 5) - 4 * arctan (1 / 239)" using machin by simp
  have l5: "(\<Sum>k<2 * 2. (- 1) ^ k * (1 / real (k * 2 + 1) * (1 / 5) ^ (k * 2 + 1))) \<le> arctan (1 / 5 :: real)"
    by (rule arctan_partial_sums) simp_all
  have u5: "arctan (1 / 5 :: real) \<le> (\<Sum>k<2 * 2 + 1. (- 1) ^ k * (1 / real (k * 2 + 1) * (1 / 5) ^ (k * 2 + 1)))"
    by (rule arctan_partial_sums) simp_all
  have l239: "(\<Sum>k<2 * 1. (- 1) ^ k * (1 / real (k * 2 + 1) * (1 / 239) ^ (k * 2 + 1))) \<le> arctan (1 / 239 :: real)"
    by (rule arctan_partial_sums) simp_all
  have u239: "arctan (1 / 239 :: real) \<le> (\<Sum>k<2 * 1 + 1. (- 1) ^ k * (1 / real (k * 2 + 1) * (1 / 239) ^ (k * 2 + 1)))"
    by (rule arctan_partial_sums) simp_all
  show "3.14159 < pi" using l5 u239 unfolding m by (simp add: eval_nat_numeral)
  show "pi < 3.1416" using u5 l239 unfolding m by (simp add: eval_nat_numeral)
qed

lemma pi_earth_radius: "\<bar>pi * 6371 - 20015.1\<bar> < 0.05"
proof -
  from pi_bounds(1) have l: "20015.06 < pi * 6371" by simp
  from pi_bounds(2) have u: "pi * 6371 < 20015.14" by simp
  have "pi * 6371 - 20015.1 < 0.05" using u by simp
  moreover have "- (pi * 6371 - 20015.1) < 0.05" using l by simp
  ultimately show ?thesis by (rule abs_less_iff[THEN iffD2, OF conjI])
qed

subsection \<open>The haversine formula\<close>

lemma haversine_km_alt:
  "haversine_km lat1 lon1 lat2 lon2 =
     (if hav_a lat1 lon1 lat2 lon2 < 0 then Inl ValueError
      else if sqrt (hav_a lat1 lon1 lat2 lon2) < - 1 \<or> 1 < sqrt (hav_a lat1 lon1 lat2 lon2)
           then Inl ValueError
           else Inr (2 * arcsin (sqrt (hav_a lat1 lon1 lat2 lon2)) * 6371))"
  by (simp add: haversine_km_def hav_a_def Let_def)

lemma sin_half_diff_sq: "(sin ((y - x) / 2))\<^sup>2 = (sin ((x - y) / 2 :: real))\<^sup>2"
proof -
  have "(y - x) / 2 = - ((x - y) / 2)" by argo
  then have "sin ((y - x) / 2) = - sin ((x - y) / 2)" by (simp only: sin_minus)
  then show ?thesis by simp
qed

lemma hav_a_sym: "hav_a lat1 lon1 lat2 lon2 = hav_a lat2 lon2 lat1 lon1"
  unfolding hav_a_def
  using sin_half_diff_sq[of "radians lat2" "radians lat1"]
    sin_half_diff_sq[of "radians lon2" "radians lon1"]
  by (simp add: mult.commute)

lemma hav_a_range: "0 \<le> hav_a lat1 lon1 lat2 lon2 \<and> hav_a lat1 lon1 lat2 lon2 \<le> 1"
proof -
  define p1 where "p1 = radians lat1"
  define p2 where "p2 = radians lat2"
  define s where "s = (sin ((radians lon2 - radians lon1) / 2))\<^sup>2"
  define cd where "cd = cos (p2 - p1)"
  define cs where "cs = cos (p2 + p1)"
  have s0: "0 \<le> s" by (simp add: s_def)
  have s1: "s \<le> 1" unfolding s_def using abs_sin_le_one[of "(radians lon2 - radians lon1) / 2"]
    by (simp add: abs_square_le_1)
  have cd1: "cd \<le> 1" "- 1 \<le> cd" by (simp_all add: cd_def)
  have cs1: "cs \<le> 1" "- 1 \<le> cs" by (simp_all add: cs_def)
  have "cos (2 * ((p2 - p1) / 2)) = 1 - 2 * (sin ((p2 - p1) / 2))\<^sup>2" by (rule cos_double_sin)
  moreover have "2 * ((p2 - p1) / 2) = p2 - p1" by argo
  ultimately have "cd = 1 - 2 * (sin ((p2 - p1) / 2))\<^sup>2" by (simp only: cd_def)
  then have hs: "(sin ((p2 - p1) / 2))\<^sup>2 = (1 - cd) / 2" by simp
  have cc: "cos p1 * cos p2 = (cd + cs) / 2"
    by (simp add: cd_def cs_def cos_diff cos_add)
  have "hav_a lat1 lon1 lat2 lon2 = (sin ((p2 - p1) / 2))\<^sup>2 + cos p1 * cos p2 * s"
    by (simp add: hav_a_def p1_def p2_def s_def)
  then have a: "hav_a lat1 lon1 lat2 lon2 = (1 - cd) / 2 + (cd + cs) / 2 * s"
    by (simp only: hs cc)
  have e1: "(1 - s) * cd \<le> (1 - s) * 1" using s1 cd1 by (intro mult_left_mono) simp_all
  have e2: "(1 - s) * (- 1) \<le> (1 - s) * cd" using s1 cd1 by (intro mult_left_mono) simp_all
  have e3: "s * cs \<le> s * 1" using s0 cs1 by (intro mult_left_mono) simp_all
  have e4: "s * (- 1) \<le> s * cs" using s0 cs1 by (intro mult_left_mono) simp_all
  have b: "(1 - cd) / 2 + (cd + cs) / 2 * s = 1 / 2 - ((1 - s) * cd) / 2 + (s * cs) / 2"
    by (simp add: field_simps)
  show ?thesis unfolding a b using e1 e2 e3 e4 by simp
qed

lemma haversine_total:
  "haversine_km lat1 lon1 lat2 lon2 = Inr (2 * arcsin (sqrt (hav_a lat1 lon1 lat2 lon2)) * 6371)"
proof -
  from hav_a_range[of lat1 lon1 lat2 lon2]
  have a0: "0 \<le> hav_a lat1 lon1 lat2 lon2" and a1: "hav_a lat1 lon1 lat2 lon2 \<le> 1" by simp_all
  from a0 have "0 \<le> sqrt (hav_a lat1 lon1 lat2 lon2)" by simp
  then have n: "\<not> sqrt (hav_a lat1 lon1 lat2 lon2) < - 1" by linarith
  from n a0 a1 show ?thesis by (simp add: haversine_km_alt)
qed

lemma haversine_same: "haversine_km lat lon lat lon = Inr 0"
  by (simp add: haversine_total hav_a_def)

lemma haversine_sym: "haversine_km lat1 lon1 lat2 lon2 = haversine_km lat2 lon2 lat1 lon1"
  by (simp add: haversine_total hav_a_sym[of lat1 lon1 lat2 lon2])

lemma haversine_antipodal: "haversine_km lat lon (- lat) (lon + 180) = Inr (pi * 6371)"
proof -
  have r1: "radians (- lat) = - radians lat" by (simp add: radians_def)
  have r2: "(radians (lon + 180) - radians lon) / 2 = pi / 2"
    by (simp add: radians_def algebra_simps)
  have r3: "(radians (- lat) - radians lat) / 2 = - radians lat" by (simp add: r1)
  have "hav_a lat lon (- lat) (lon + 180) = (sin (radians lat))\<^sup>2 + (cos (radians lat))\<^sup>2"
    unfolding hav_a_def r2 r3 by (simp add: r1 power2_eq_square)
  then have "hav_a lat lon (- lat) (lon + 180) = 1" by simp
  then show ?thesis by (simp add: haversine_total)
qed

text \<open>
  Claim C7. \<^verbatim>\<open>haversine_km\<close> is a function of its four arguments that always returns a
  distance (over the reals no domain error can occur); two identical points are at
  distance 0; the distance is symmetric in its two points; and a point and its antipode
  (latitude negated, longitude shifted by 180 degrees) are at distance \<open>pi * 6371\<close>, which is
  20015.1 km to within 0.05 km. Every distance lies between 0 and that value. Coordinates
  and results are exact reals here, not floating-point numbers.
\<close>

theorem haversine_km_properties:
  "haversine_km lat lon lat lon = Inr 0
   \<and> haversine_km lat1 lon1 lat2 lon2 = haversine_km lat2 lon2 lat1 lon1
   \<and> haversine_km lat lon (- lat) (lon + 180) = Inr (pi * 6371)
   \<and> \<bar>pi * 6371 - 20015.1\<bar> < 0.05
   \<and> (\<exists>d. haversine_km lat1 lon1 lat2 lon2 = Inr d \<and> 0 \<le> d \<and> d \<le> pi * 6371)"
proof -
  have n: "\<bar>pi * 6371 - 20015.1\<bar> < 0.05" by (rule pi_earth_radius)
  have t: "\<exists>d. haversine_km lat1 lon1 lat2 lon2 = Inr d \<and> 0 \<le> d \<and> d \<le> pi * 6371"
    using haversine_range[of lat1 lon1 lat2 lon2] haversine_total[of lat1 lon1 lat2 lon2] by simp
  from haversine_same haversine_sym haversine_antipodal n t show ?thesis by blast
qed

theorem haversine_km_properties_witness:
  "haversine_km 0 0 0 0 = Inr 0
   \<and> haversine_km 12 (- 1) 48 2 = haversine_km 48 2 12 (- 1)
   \<and> haversine_km 0 0 0 180 = Inr (pi * 6371)
   \<and> haversine_km 90 0 (- 90) 180 = Inr (pi * 6371)"
  using haversine_km_properties[of 0 0 12 "- 1" 48 2] haversine_km_properties[of 90 0]
  by simp

end
